theory Spec2Isabelle
  imports Main "HOL-Library.Sublist"
begin

section \<open>Assessment router: api/routers/assessments.py\<close>

text \<open>
  The router is a thin layer of route handlers over an assessment service and a database
  handle. Each handler is modelled from the point where the framework has resolved its
  dependencies: the request body is parsed, \<open>current_user\<close> is the caller the
  permission gate let through, and \<open>db\<close> is the database the request works on.
  A handler that receives \<open>db\<close> takes the database state and returns the state it
  leaves; an exception is the \<open>Inl\<close> branch of the result.
\<close>

subsection \<open>Python values\<close>

text \<open>
  Values of a parsed JSON body and of JSON columns: \<open>None\<close>, booleans, integers,
  floats, strings, lists and dictionaries (in insertion order). A finite float
  \<open>Finite m e\<close> stands for \<open>m * 2 ^ e\<close>; only its being zero is ever inspected.
\<close>

datatype pyfloat = Finite int int | PosInf | NegInf | NaN

datatype json =
    JNull
  | JBool bool
  | JInt int
  | JFloat pyfloat
  | JStr string
  | JList "json list"
  | JDict "(string \<times> json) list"

text \<open>Python's truth value of an object, as \<open>not x\<close> and \<open>if x:\<close> test it.\<close>

fun truthy :: "json \<Rightarrow> bool" where
  "truthy JNull = False"
| "truthy (JBool b) = b"
| "truthy (JInt i) = (i \<noteq> 0)"
| "truthy (JFloat f) = (case f of Finite m e \<Rightarrow> m \<noteq> 0 | _ \<Rightarrow> True)"
| "truthy (JStr s) = (s \<noteq> [])"
| "truthy (JList xs) = (xs \<noteq> [])"
| "truthy (JDict kvs) = (kvs \<noteq> [])"

text \<open>\<open>d.get(k)\<close> on a dictionary with string keys: \<open>None\<close> for a missing key.\<close>

definition dict_get :: "(string \<rightharpoonup> json) \<Rightarrow> string \<Rightarrow> json" where
  "dict_get d k = (case d k of None \<Rightarrow> JNull | Some v \<Rightarrow> v)"

text \<open>
  \<open>sub in s\<close> on strings: \<open>sub\<close> occurs in \<open>s\<close> as a contiguous run. For an
  ASCII needle the test on UTF-8 bytes and the test on code points agree.
\<close>

definition str_in :: "string \<Rightarrow> string \<Rightarrow> bool" where
  "str_in sub s = sublist sub s"

subsection \<open>Exceptions and status codes\<close>

text \<open>
  \<open>HTTPException\<close> is what the handlers raise; \<open>ServiceException\<close> stands for
  any other exception that comes out of the service and propagates unhandled.
\<close>

datatype error = HTTPException nat string | ServiceException string

abbreviation HTTP_201_CREATED :: nat where "HTTP_201_CREATED \<equiv> 201"
abbreviation HTTP_400_BAD_REQUEST :: nat where "HTTP_400_BAD_REQUEST \<equiv> 400"
abbreviation HTTP_404_NOT_FOUND :: nat where "HTTP_404_NOT_FOUND \<equiv> 404"

subsection \<open>Identifiers, callers and request bodies\<close>

text \<open>
  A UUID is its 128-bit integer value; \<open>str\<close> of it is the 32 lower-case hex digits,
  grouped 8-4-4-4-12.
\<close>

datatype uuid = UUID (uuid_int: nat)

definition hex_digit :: "nat \<Rightarrow> char" where
  "hex_digit d = ''0123456789abcdef'' ! (d mod 16)"

fun hex_pad :: "nat \<Rightarrow> nat \<Rightarrow> string" where
  "hex_pad 0 n = []"
| "hex_pad (Suc k) n = hex_pad k (n div 16) @ [hex_digit n]"

fun str_uuid :: "uuid \<Rightarrow> string" where
  "str_uuid (UUID n) =
     (let h = hex_pad 32 n
      in take 8 h @ ''-'' @ take 4 (drop 8 h) @ ''-'' @ take 4 (drop 12 h) @ ''-'' @
         take 4 (drop 16 h) @ ''-'' @ drop 20 h)"

text \<open>The authenticated caller; \<open>ident\<close> is the attribute \<open>id\<close>.\<close>

record UserWithRoles =
  ident :: uuid
  roles :: "string list"

record QuickAssessmentRequest =
  business_profile_id :: string
  assessment_type :: string
  industry_standard :: bool

record FrameworkInfo =
  name :: string
  description :: string

record QuickRecommendation =
  framework :: FrameworkInfo
  priority :: string
  description :: string

record QuickAssessmentResponse =
  recommendations :: "QuickRecommendation list"

subsection \<open>POST /quick\<close>

text \<open>
  The handler appends to a local list: the GDPR entry always, then the two
  industry-standard entries when the flag is set. It takes no database handle.
\<close>

definition quick_assessment ::
  "QuickAssessmentRequest \<Rightarrow> UserWithRoles \<Rightarrow> error + QuickAssessmentResponse" where
  "quick_assessment request current_user =
     (let recommendations = [];
          recommendations = recommendations @
            [\<lparr>framework =
                \<lparr>FrameworkInfo.name = ''GDPR (General Data Protection Regulation)'',
                 FrameworkInfo.description = ''EU data protection regulation''\<rparr>,
              priority = ''high'',
              description = ''Essential for businesses handling personal data of EU residents''\<rparr>];
          recommendations =
            (if industry_standard request then
               (recommendations @
                  [\<lparr>framework =
                      \<lparr>FrameworkInfo.name = ''ISO 27001'',
                       FrameworkInfo.description = ''Information security management standard''\<rparr>,
                    priority = ''medium'',
                    description = ''Industry standard for information security management''\<rparr>]) @
                  [\<lparr>framework =
                      \<lparr>FrameworkInfo.name = ''SOC 2'',
                       FrameworkInfo.description = ''Security and availability controls''\<rparr>,
                    priority = ''medium'',
                    description = ''Important for service organizations handling customer data''\<rparr>]
             else recommendations)
      in Inr \<lparr>recommendations = recommendations\<rparr>)"

subsection \<open>Stored rows and the database\<close>

text \<open>
  Modelled from the spec: the classes \<open>AssessmentSessionCreate\<close>,
  \<open>AssessmentResponseUpdate\<close>, \<open>AssessmentSession\<close> and \<open>ComplianceFramework\<close>
  are declared outside this router. The spec gives a session an id, an owning user, a
  business profile, a session type, a response history, an optional recommendations list
  and a completion state, and a framework an id, a name, a description and an active
  flag. The handlers read \<open>session_type\<close> and \<open>business_profile_id\<close> of the
  creation body, \<open>question_id\<close> and \<open>response\<close> of the update body,
  \<open>recommendations\<close> of a session and \<open>id\<close>, \<open>name\<close>, \<open>description\<close> and
  \<open>is_active\<close> of a framework. The recommendations attribute is a Python value:
  \<open>JNull\<close> when absent, a \<open>JList\<close> when persisted.
\<close>

record AssessmentSessionCreate =
  session_type :: string
  business_profile_id :: uuid

record AssessmentResponseUpdate =
  question_id :: json
  response :: json

record AssessmentSession =
  ident :: uuid
  user_id :: uuid
  business_profile_id :: uuid
  session_type :: string
  responses :: "(json \<times> json) list"
  recommendations :: json
  completed :: bool

record ComplianceFramework =
  ident :: uuid
  name :: string
  description :: string
  is_active :: bool

text \<open>The database the request works on: the two tables, in row order.\<close>

record db =
  assessment_sessions :: "AssessmentSession list"
  compliance_frameworks :: "ComplianceFramework list"

subsection \<open>The assessment service\<close>

text \<open>
  \<open>AssessmentService()\<close> is built in every handler and one of its methods is awaited.
  The class lives outside this router, so the handlers take the service as a parameter:
  a record of the five methods the handlers below call, each from the database state and
  its arguments to a returned value or a raised exception, and the database state it
  leaves. The method \<open>get_assessment_session\<close> is the field
  \<open>service_get_assessment_session\<close>, the handler of the same name keeping the name.
\<close>

record assessment_service =
  start_assessment_session ::
    "db \<Rightarrow> UserWithRoles \<Rightarrow> string \<Rightarrow> uuid \<Rightarrow> (error + AssessmentSession) \<times> db"
  get_current_assessment_session ::
    "db \<Rightarrow> UserWithRoles \<Rightarrow> (error + AssessmentSession option) \<times> db"
  update_assessment_response ::
    "db \<Rightarrow> UserWithRoles \<Rightarrow> uuid \<Rightarrow> json \<Rightarrow> json \<Rightarrow> (error + AssessmentSession) \<times> db"
  service_get_assessment_session ::
    "db \<Rightarrow> UserWithRoles \<Rightarrow> uuid \<Rightarrow> (error + AssessmentSession option) \<times> db"
  complete_assessment_session ::
    "db \<Rightarrow> UserWithRoles \<Rightarrow> uuid \<Rightarrow> (error + AssessmentSession) \<times> db"

subsection \<open>POST / and POST /start\<close>

definition create_assessment ::
  "assessment_service \<Rightarrow> AssessmentSessionCreate \<Rightarrow> UserWithRoles \<Rightarrow> db \<Rightarrow>
     (error + AssessmentSession) \<times> db" where
  "create_assessment assessment_service session_data current_user db =
     start_assessment_session assessment_service db current_user
       (AssessmentSessionCreate.session_type session_data)
       (AssessmentSessionCreate.business_profile_id session_data)"

definition start_assessment ::
  "assessment_service \<Rightarrow> AssessmentSessionCreate \<Rightarrow> UserWithRoles \<Rightarrow> db \<Rightarrow>
     (error + AssessmentSession) \<times> db" where
  "start_assessment assessment_service session_data current_user db =
     start_assessment_session assessment_service db current_user
       (AssessmentSessionCreate.session_type session_data)
       (AssessmentSessionCreate.business_profile_id session_data)"

text \<open>
  The route decorator's \<open>status_code\<close>: a handler that returns is answered with that
  status and the returned body; an exception passes through.
\<close>

definition router_response :: "nat \<Rightarrow> (error + 'a) \<times> db \<Rightarrow> (error + nat \<times> 'a) \<times> db" where
  "router_response status_code r =
     (case r of
        (Inl e, db') \<Rightarrow> (Inl e, db')
      | (Inr body, db') \<Rightarrow> (Inr (status_code, body), db'))"

definition post_root ::
  "assessment_service \<Rightarrow> AssessmentSessionCreate \<Rightarrow> UserWithRoles \<Rightarrow> db \<Rightarrow>
     (error + nat \<times> AssessmentSession) \<times> db" where
  "post_root assessment_service session_data current_user db =
     router_response HTTP_201_CREATED
       (create_assessment assessment_service session_data current_user db)"

definition post_start ::
  "assessment_service \<Rightarrow> AssessmentSessionCreate \<Rightarrow> UserWithRoles \<Rightarrow> db \<Rightarrow>
     (error + nat \<times> AssessmentSession) \<times> db" where
  "post_start assessment_service session_data current_user db =
     router_response HTTP_201_CREATED
       (start_assessment assessment_service session_data current_user db)"

subsection \<open>GET /current\<close>

definition get_current_session ::
  "assessment_service \<Rightarrow> UserWithRoles \<Rightarrow> db \<Rightarrow> (error + AssessmentSession) \<times> db" where
  "get_current_session assessment_service current_user db =
     (case get_current_assessment_session assessment_service db current_user of
        (Inl e, db') \<Rightarrow> (Inl e, db')
      | (Inr None, db') \<Rightarrow>
          (Inl (HTTPException HTTP_404_NOT_FOUND ''No active assessment session''), db')
      | (Inr (Some session), db') \<Rightarrow> (Inr session, db'))"

subsection \<open>PUT /{session_id}/response and POST /{session_id}/responses\<close>

definition update_response ::
  "assessment_service \<Rightarrow> uuid \<Rightarrow> AssessmentResponseUpdate \<Rightarrow> UserWithRoles \<Rightarrow> db \<Rightarrow>
     (error + AssessmentSession) \<times> db" where
  "update_response assessment_service session_id response_data current_user db =
     update_assessment_response assessment_service db current_user session_id
       (question_id response_data) (response response_data)"

definition update_responses ::
  "assessment_service \<Rightarrow> uuid \<Rightarrow> (string \<rightharpoonup> json) \<Rightarrow> UserWithRoles \<Rightarrow> db \<Rightarrow>
     (error + AssessmentSession) \<times> db" where
  "update_responses assessment_service session_id response_data current_user db =
     (let question_id = dict_get response_data ''question_id'';
          response = dict_get response_data ''response''
      in if \<not> truthy question_id then
           (Inl (HTTPException HTTP_400_BAD_REQUEST ''question_id is required''), db)
         else update_assessment_response assessment_service db current_user session_id
                question_id response)"

subsection \<open>GET /{session_id}\<close>

definition get_assessment_session ::
  "assessment_service \<Rightarrow> uuid \<Rightarrow> UserWithRoles \<Rightarrow> db \<Rightarrow> (error + AssessmentSession) \<times> db" where
  "get_assessment_session assessment_service session_id current_user db =
     (case service_get_assessment_session assessment_service db current_user session_id of
        (Inl e, db') \<Rightarrow> (Inl e, db')
      | (Inr None, db') \<Rightarrow>
          (Inl (HTTPException HTTP_404_NOT_FOUND ''Assessment session not found''), db')
      | (Inr (Some session), db') \<Rightarrow> (Inr session, db'))"

subsection \<open>GET /{session_id}/recommendations\<close>

text \<open>
  The loop over the active frameworks, appending to \<open>recommendations\<close>: one dictionary
  for each framework whose name contains "GDPR" or "ISO".
\<close>

fun recommendations_loop :: "ComplianceFramework list \<Rightarrow> json list \<Rightarrow> json list" where
  "recommendations_loop [] recs = recs"
| "recommendations_loop (fw # frameworks) recs =
     (if str_in ''GDPR'' (name fw) \<or> str_in ''ISO'' (name fw) then
        (let priority = (if str_in ''GDPR'' (name fw) then ''High'' else ''Medium'')
         in recommendations_loop frameworks
              (recs @
                 [JDict
                    [(''framework'',
                        JDict
                          [(''id'', JStr (str_uuid (ComplianceFramework.ident fw))),
                           (''name'', JStr (name fw)),
                           (''description'', JStr (description fw))]),
                     (''priority'', JStr priority),
                     (''description'', JStr ''Recommended based on your business profile'')]]))
      else recommendations_loop frameworks recs)"

text \<open>
  The handler asks the service for the session, raises Not-Found when there is none, reads
  the active frameworks from the database (\<open>select(ComplianceFramework).where(is_active)\<close>),
  and returns the session's recommendations when they are truthy, the synthesized list
  otherwise.
\<close>

definition get_assessment_recommendations ::
  "assessment_service \<Rightarrow> uuid \<Rightarrow> UserWithRoles \<Rightarrow> db \<Rightarrow> (error + json) \<times> db" where
  "get_assessment_recommendations assessment_service session_id current_user db =
     (case service_get_assessment_session assessment_service db current_user session_id of
        (Inl e, db') \<Rightarrow> (Inl e, db')
      | (Inr None, db') \<Rightarrow>
          (Inl (HTTPException HTTP_404_NOT_FOUND ''Assessment session not found''), db')
      | (Inr (Some session), db') \<Rightarrow>
          (let frameworks = filter is_active (compliance_frameworks db');
               recommendations =
                 (if truthy (AssessmentSession.recommendations session)
                  then AssessmentSession.recommendations session
                  else JList (recommendations_loop frameworks []))
           in (Inr (JDict [(''recommendations'', recommendations)]), db')))"

subsection \<open>POST /{session_id}/complete\<close>

definition complete_assessment ::
  "assessment_service \<Rightarrow> uuid \<Rightarrow> UserWithRoles \<Rightarrow> db \<Rightarrow> (error + AssessmentSession) \<times> db" where
  "complete_assessment assessment_service session_id current_user db =
     complete_assessment_session assessment_service db current_user session_id"

subsection \<open>The service, as the spec describes it\<close>

text \<open>
  Modelled from the spec: the class \<open>AssessmentService\<close> (services/assessment_service.py)
  is not part of this router. Every read and write of the service is scoped to the
  sessions of the requesting user: \<open>owned_session\<close> is the session with the given id
  that the caller owns, if there is one.
\<close>

definition owned_session :: "db \<Rightarrow> UserWithRoles \<Rightarrow> uuid \<Rightarrow> AssessmentSession option" where
  "owned_session db user session_id =
     find (\<lambda>s. AssessmentSession.ident s = session_id \<and> user_id s = UserWithRoles.ident user)
       (assessment_sessions db)"

text \<open>
  Modelled from the spec: writing a changed session back replaces the row with its id.
\<close>

definition store_session :: "AssessmentSession \<Rightarrow> db \<Rightarrow> db" where
  "store_session s db =
     db\<lparr>assessment_sessions :=
          map (\<lambda>x. if AssessmentSession.ident x = AssessmentSession.ident s then s else x)
            (assessment_sessions db)\<rparr>"

text \<open>
  Modelled from the spec: start creates and returns a new session of the given type for
  the given business profile, owned by the caller. The spec leaves the choice of the new
  id open; here it is the successor of the largest id in the table.
\<close>

definition AssessmentService_start_assessment_session ::
  "db \<Rightarrow> UserWithRoles \<Rightarrow> string \<Rightarrow> uuid \<Rightarrow> (error + AssessmentSession) \<times> db" where
  "AssessmentService_start_assessment_session db user stype profile_id =
     (let s = \<lparr>AssessmentSession.ident =
                  UUID (Suc (fold max
                    (map (\<lambda>x. uuid_int (AssessmentSession.ident x)) (assessment_sessions db)) 0)),
                user_id = UserWithRoles.ident user,
                AssessmentSession.business_profile_id = profile_id,
                AssessmentSession.session_type = stype,
                responses = [],
                AssessmentSession.recommendations = JNull,
                completed = False\<rparr>
      in (Inr s, db\<lparr>assessment_sessions := assessment_sessions db @ [s]\<rparr>))"

text \<open>
  Modelled from the spec: get-current yields the caller's most recent session that is
  still active (not completed), or none.
\<close>

definition AssessmentService_get_current_assessment_session ::
  "db \<Rightarrow> UserWithRoles \<Rightarrow> (error + AssessmentSession option) \<times> db" where
  "AssessmentService_get_current_assessment_session db user =
     (Inr (find (\<lambda>s. user_id s = UserWithRoles.ident user \<and> \<not> completed s)
             (rev (assessment_sessions db))), db)"

text \<open>
  Modelled from the spec: upsert of an answer, one per question id, the last write
  winning.
\<close>

fun upsert :: "json \<Rightarrow> json \<Rightarrow> (json \<times> json) list \<Rightarrow> (json \<times> json) list" where
  "upsert q r [] = [(q, r)]"
| "upsert q r ((q', r') # rest) =
     (if q' = q then (q, r) # rest else (q', r') # upsert q r rest)"

text \<open>
  Modelled from the spec: update-response upserts the answer into the caller's session
  and returns the session; a session that is absent or not owned is Not-Found.
\<close>

definition AssessmentService_update_assessment_response ::
  "db \<Rightarrow> UserWithRoles \<Rightarrow> uuid \<Rightarrow> json \<Rightarrow> json \<Rightarrow> (error + AssessmentSession) \<times> db" where
  "AssessmentService_update_assessment_response db user session_id q r =
     (case owned_session db user session_id of
        None \<Rightarrow> (Inl (HTTPException HTTP_404_NOT_FOUND ''Assessment session not found''), db)
      | Some s \<Rightarrow>
          (let s' = s\<lparr>responses := upsert q r (responses s)\<rparr>
           in (Inr s', store_session s' db)))"

text \<open>
  Modelled from the spec: get-by-id yields the session with that id owned by the caller,
  or none.
\<close>

definition AssessmentService_get_assessment_session ::
  "db \<Rightarrow> UserWithRoles \<Rightarrow> uuid \<Rightarrow> (error + AssessmentSession option) \<times> db" where
  "AssessmentService_get_assessment_session db user session_id =
     (Inr (owned_session db user session_id), db)"

text \<open>
  Modelled from the spec: complete moves the caller's session to the completed state and
  returns it; a session that is absent or not owned is Not-Found.
\<close>

definition AssessmentService_complete_assessment_session ::
  "db \<Rightarrow> UserWithRoles \<Rightarrow> uuid \<Rightarrow> (error + AssessmentSession) \<times> db" where
  "AssessmentService_complete_assessment_session db user session_id =
     (case owned_session db user session_id of
        None \<Rightarrow> (Inl (HTTPException HTTP_404_NOT_FOUND ''Assessment session not found''), db)
      | Some s \<Rightarrow>
          (let s' = s\<lparr>completed := True\<rparr>
           in (Inr s', store_session s' db)))"

text \<open>Modelled from the spec: the service object, its methods as above.\<close>

definition AssessmentService :: assessment_service where
  "AssessmentService =
     \<lparr>start_assessment_session = AssessmentService_start_assessment_session,
      get_current_assessment_session = AssessmentService_get_current_assessment_session,
      update_assessment_response = AssessmentService_update_assessment_response,
      service_get_assessment_session = AssessmentService_get_assessment_session,
      complete_assessment_session = AssessmentService_complete_assessment_session\<rparr>"

subsection \<open>Example data\<close>

text \<open>
  Two callers, three sessions of the first (without recommendations, with a persisted
  list, with an empty list) and five frameworks, one of them inactive.
\<close>

definition alice :: UserWithRoles where
  "alice = \<lparr>UserWithRoles.ident = UUID 1, roles = [''business_user'']\<rparr>"

definition bob :: UserWithRoles where
  "bob = \<lparr>UserWithRoles.ident = UUID 2, roles = [''business_user'']\<rparr>"

definition session_plain :: AssessmentSession where
  "session_plain =
     \<lparr>AssessmentSession.ident = UUID 10, user_id = UUID 1,
      AssessmentSession.business_profile_id = UUID 20,
      AssessmentSession.session_type = ''compliance_scoping'',
      responses = [], AssessmentSession.recommendations = JNull, completed = False\<rparr>"

definition session_persisted :: AssessmentSession where
  "session_persisted =
     \<lparr>AssessmentSession.ident = UUID 11, user_id = UUID 1,
      AssessmentSession.business_profile_id = UUID 20,
      AssessmentSession.session_type = ''compliance_scoping'',
      responses = [],
      AssessmentSession.recommendations = JList [JDict [(''framework'', JStr ''SOC 2'')]],
      completed = True\<rparr>"

definition session_empty :: AssessmentSession where
  "session_empty =
     \<lparr>AssessmentSession.ident = UUID 12, user_id = UUID 1,
      AssessmentSession.business_profile_id = UUID 20,
      AssessmentSession.session_type = ''compliance_scoping'',
      responses = [], AssessmentSession.recommendations = JList [], completed = True\<rparr>"

definition example_db :: db where
  "example_db =
     \<lparr>assessment_sessions = [session_plain, session_persisted, session_empty],
      compliance_frameworks =
        [\<lparr>ComplianceFramework.ident = UUID 1, name = ''GDPR Foo'',
          description = ''a'', is_active = True\<rparr>,
         \<lparr>ComplianceFramework.ident = UUID 2, name = ''Privacy Act'',
          description = ''b'', is_active = True\<rparr>,
         \<lparr>ComplianceFramework.ident = UUID 3, name = ''ISO 9000'',
          description = ''c'', is_active = True\<rparr>,
         \<lparr>ComplianceFramework.ident = UUID 4, name = ''Other'',
          description = ''d'', is_active = True\<rparr>,
         \<lparr>ComplianceFramework.ident = UUID 5, name = ''ISO 27001'',
          description = ''e'', is_active = False\<rparr>]\<rparr>"

text \<open>The same sessions over a table in which no active framework matches.\<close>

definition example_db_unmatched :: db where
  "example_db_unmatched =
     \<lparr>assessment_sessions = [session_plain, session_persisted, session_empty],
      compliance_frameworks =
        [\<lparr>ComplianceFramework.ident = UUID 2, name = ''Privacy Act'',
          description = ''b'', is_active = True\<rparr>,
         \<lparr>ComplianceFramework.ident = UUID 4, name = ''Other'',
          description = ''d'', is_active = True\<rparr>,
         \<lparr>ComplianceFramework.ident = UUID 5, name = ''ISO 27001'',
          description = ''e'', is_active = False\<rparr>]\<rparr>"

section \<open>Properties\<close>

subsection \<open>Auxiliary facts\<close>

text \<open>
  The loop appends, in order, one entry for each framework whose name contains "GDPR" or
  "ISO", and nothing for the others.
\<close>

lemma recommendations_loop_append:
  "recommendations_loop fws recs =
     recs @ map (\<lambda>fw. JDict
                    [(''framework'',
                        JDict
                          [(''id'', JStr (str_uuid (ComplianceFramework.ident fw))),
                           (''name'', JStr (name fw)),
                           (''description'', JStr (description fw))]),
                     (''priority'', JStr (if str_in ''GDPR'' (name fw) then ''High'' else ''Medium'')),
                     (''description'', JStr ''Recommended based on your business profile'')])
              (filter (\<lambda>fw. str_in ''GDPR'' (name fw) \<or> str_in ''ISO'' (name fw)) fws)"
  by (induction fws arbitrary: recs) (simp_all add: Let_def)

text \<open>The substring test, spelled out: some prefix and suffix surround the needle.\<close>

lemma str_in_iff: "str_in sub s = (\<exists>pre post. s = pre @ sub @ post)"
  by (simp add: str_in_def sublist_def)

lemma owned_session_None:
  "\<forall>s \<in> set (assessment_sessions db).
      \<not> (AssessmentSession.ident s = session_id \<and> user_id s = UserWithRoles.ident user)
   \<Longrightarrow> owned_session db user session_id = None"
  by (simp add: owned_session_def find_None_iff)

lemma str_uuid_1: "str_uuid (UUID 1) = ''00000000-0000-0000-0000-000000000001''"
  by code_simp

lemma str_uuid_3: "str_uuid (UUID 3) = ''00000000-0000-0000-0000-000000000003''"
  by code_simp

lemmas service_simps =
  AssessmentService_def AssessmentService_start_assessment_session_def
  AssessmentService_get_current_assessment_session_def
  AssessmentService_update_assessment_response_def
  AssessmentService_get_assessment_session_def
  AssessmentService_complete_assessment_session_def
  owned_session_def store_session_def

lemmas example_simps =
  alice_def bob_def session_plain_def session_persisted_def session_empty_def example_db_def

subsection \<open>Quick assessment\<close>

text \<open>
  C1. POST /quick: when \<open>industry_standard\<close> is false the response holds exactly one
  recommendation, the GDPR framework with priority "high"; when it is true it holds
  exactly three, in the order GDPR ("high"), ISO 27001 ("medium"), SOC 2 ("medium").
\<close>

theorem quick_assessment_recommendations:
  "\<exists>resp. quick_assessment request current_user = Inr resp \<and>
     (\<not> industry_standard request \<longrightarrow>
        length (QuickAssessmentResponse.recommendations resp) = 1 \<and>
        map (\<lambda>r. (FrameworkInfo.name (framework r), priority r)) (QuickAssessmentResponse.recommendations resp) =
          [(''GDPR (General Data Protection Regulation)'', ''high'')]) \<and>
     (industry_standard request \<longrightarrow>
        length (QuickAssessmentResponse.recommendations resp) = 3 \<and>
        map (\<lambda>r. (FrameworkInfo.name (framework r), priority r)) (QuickAssessmentResponse.recommendations resp) =
          [(''GDPR (General Data Protection Regulation)'', ''high''),
           (''ISO 27001'', ''medium''),
           (''SOC 2'', ''medium'')])"
  by (cases "industry_standard request") (simp_all add: quick_assessment_def Let_def)

theorem quick_assessment_recommendations_witness:
  "(\<exists>resp. quick_assessment
       \<lparr>QuickAssessmentRequest.business_profile_id = ''p'', assessment_type = ''t'',
        industry_standard = False\<rparr> alice = Inr resp \<and>
      length (QuickAssessmentResponse.recommendations resp) = 1 \<and>
      map (\<lambda>r. (FrameworkInfo.name (framework r), priority r))
        (QuickAssessmentResponse.recommendations resp) =
        [(''GDPR (General Data Protection Regulation)'', ''high'')]) \<and>
   (\<exists>resp. quick_assessment
       \<lparr>QuickAssessmentRequest.business_profile_id = ''p'', assessment_type = ''t'',
        industry_standard = True\<rparr> alice = Inr resp \<and>
      length (QuickAssessmentResponse.recommendations resp) = 3 \<and>
      map (\<lambda>r. (FrameworkInfo.name (framework r), priority r))
        (QuickAssessmentResponse.recommendations resp) =
        [(''GDPR (General Data Protection Regulation)'', ''high''),
         (''ISO 27001'', ''medium''),
         (''SOC 2'', ''medium'')])"
  using quick_assessment_recommendations
          [of "\<lparr>QuickAssessmentRequest.business_profile_id = ''p'', assessment_type = ''t'',
                industry_standard = False\<rparr>" alice]
        quick_assessment_recommendations
          [of "\<lparr>QuickAssessmentRequest.business_profile_id = ''p'', assessment_type = ''t'',
                industry_standard = True\<rparr>" alice]
  by simp

text \<open>
  C7. The quick-assessment handler depends on the \<open>industry_standard\<close> flag alone: two
  requests that agree on the flag get equal responses, whatever their
  \<open>business_profile_id\<close>, their \<open>assessment_type\<close> and their callers. The handler
  always returns (no exception branch is taken), and it has no database handle to write
  through.
\<close>

theorem quick_assessment_pure:
  "industry_standard r1 = industry_standard r2 \<Longrightarrow>
     quick_assessment r1 u1 = quick_assessment r2 u2 \<and>
     (\<exists>resp. quick_assessment r1 u1 = Inr resp)"
  by (simp add: quick_assessment_def Let_def)

theorem quick_assessment_pure_witness:
  "industry_standard
      \<lparr>QuickAssessmentRequest.business_profile_id = ''p1'', assessment_type = ''gdpr'',
       industry_standard = True\<rparr> =
   industry_standard
      \<lparr>QuickAssessmentRequest.business_profile_id = ''p2'', assessment_type = ''soc'',
       industry_standard = True\<rparr> \<and>
   quick_assessment
      \<lparr>QuickAssessmentRequest.business_profile_id = ''p1'', assessment_type = ''gdpr'',
       industry_standard = True\<rparr> alice =
   quick_assessment
      \<lparr>QuickAssessmentRequest.business_profile_id = ''p2'', assessment_type = ''soc'',
       industry_standard = True\<rparr> bob"
proof -
  have h: "industry_standard
      \<lparr>QuickAssessmentRequest.business_profile_id = ''p1'', assessment_type = ''gdpr'',
       industry_standard = True\<rparr> =
   industry_standard
      \<lparr>QuickAssessmentRequest.business_profile_id = ''p2'', assessment_type = ''soc'',
       industry_standard = True\<rparr>" by simp
  from quick_assessment_pure [OF h, of alice bob] h show ?thesis by blast
qed

subsection \<open>Session routes\<close>

text \<open>
  C8. POST / and POST /start behave identically: for every creation request both handlers
  make the same call of the service's start operation, with the caller, the session type
  and the business-profile id, and both routes answer with what it returns, under
  status 201 when it returns a session.
\<close>

theorem create_start_identical:
  "create_assessment svc session_data current_user db =
     start_assessment svc session_data current_user db \<and>
   post_root svc session_data current_user db = post_start svc session_data current_user db \<and>
   post_root svc session_data current_user db =
     router_response HTTP_201_CREATED
       (start_assessment_session svc db current_user
          (AssessmentSessionCreate.session_type session_data)
          (AssessmentSessionCreate.business_profile_id session_data)) \<and>
   (\<forall>session db'.
      start_assessment_session svc db current_user
        (AssessmentSessionCreate.session_type session_data)
        (AssessmentSessionCreate.business_profile_id session_data) = (Inr session, db') \<longrightarrow>
      post_root svc session_data current_user db = (Inr (HTTP_201_CREATED, session), db') \<and>
      post_start svc session_data current_user db = (Inr (HTTP_201_CREATED, session), db'))"
  by (simp add: create_assessment_def start_assessment_def post_root_def post_start_def
        router_response_def)

theorem create_start_identical_witness:
  "post_root AssessmentService
     \<lparr>AssessmentSessionCreate.session_type = ''compliance_scoping'',
      AssessmentSessionCreate.business_profile_id = UUID 21\<rparr> bob example_db =
   post_start AssessmentService
     \<lparr>AssessmentSessionCreate.session_type = ''compliance_scoping'',
      AssessmentSessionCreate.business_profile_id = UUID 21\<rparr> bob example_db \<and>
   fst (post_root AssessmentService
     \<lparr>AssessmentSessionCreate.session_type = ''compliance_scoping'',
      AssessmentSessionCreate.business_profile_id = UUID 21\<rparr> bob example_db) =
   Inr (HTTP_201_CREATED,
     \<lparr>AssessmentSession.ident = UUID 13, user_id = UUID 2,
      AssessmentSession.business_profile_id = UUID 21,
      AssessmentSession.session_type = ''compliance_scoping'',
      responses = [], AssessmentSession.recommendations = JNull, completed = False\<rparr>)"
  using create_start_identical
          [of AssessmentService
              "\<lparr>AssessmentSessionCreate.session_type = ''compliance_scoping'',
                AssessmentSessionCreate.business_profile_id = UUID 21\<rparr>" bob example_db]
  by (simp add: service_simps example_simps router_response_def Let_def)

text \<open>
  C6. GET /current: when the service yields a session, that session is returned; the
  handler fails with Not-Found (404) if and only if the service yields no active session
  for the caller.
\<close>

theorem get_current_session_result:
  assumes "get_current_assessment_session svc db current_user = (Inr r, db')"
  shows "(\<forall>session. r = Some session \<longrightarrow>
            get_current_session svc current_user db = (Inr session, db')) \<and>
         ((get_current_session svc current_user db =
             (Inl (HTTPException HTTP_404_NOT_FOUND ''No active assessment session''), db')) =
          (r = None)) \<and>
         ((\<exists>detail. fst (get_current_session svc current_user db) =
             Inl (HTTPException HTTP_404_NOT_FOUND detail)) = (r = None))"
  using assms by (cases r) (simp_all add: get_current_session_def)

theorem get_current_session_result_witness:
  "get_current_session AssessmentService alice example_db = (Inr session_plain, example_db) \<and>
   get_current_session AssessmentService bob example_db =
     (Inl (HTTPException HTTP_404_NOT_FOUND ''No active assessment session''), example_db)"
proof -
  have a: "get_current_assessment_session AssessmentService example_db alice =
             (Inr (Some session_plain), example_db)"
    by (simp add: service_simps example_simps)
  have b: "get_current_assessment_session AssessmentService example_db bob =
             (Inr None, example_db)"
    by (simp add: service_simps example_simps)
  from get_current_session_result [OF a] get_current_session_result [OF b]
  show ?thesis by simp
qed

text \<open>
  C4. POST /{session_id}/responses with a payload that has no \<open>question_id\<close> key
  raises Bad-Request (400) and mutates nothing: the database state is returned as it
  was, and the outcome is the same whatever the service is, so its update operation
  plays no part in it.
\<close>

theorem update_responses_missing_question_id:
  "response_data ''question_id'' = None \<Longrightarrow>
     update_responses svc session_id response_data current_user db =
       (Inl (HTTPException HTTP_400_BAD_REQUEST ''question_id is required''), db) \<and>
     update_responses svc session_id response_data current_user db =
       update_responses svc' session_id response_data current_user db"
  by (simp add: update_responses_def dict_get_def)

theorem update_responses_missing_question_id_witness:
  "[''response'' \<mapsto> JStr ''yes''] ''question_id'' = None \<and>
   update_responses AssessmentService (UUID 10) [''response'' \<mapsto> JStr ''yes''] alice example_db =
     (Inl (HTTPException HTTP_400_BAD_REQUEST ''question_id is required''), example_db)"
proof -
  have h: "[''response'' \<mapsto> JStr ''yes''] ''question_id'' = None" by simp
  from update_responses_missing_question_id
         [where response_data = "[''response'' \<mapsto> JStr ''yes'']" and svc = AssessmentService
            and session_id = "UUID 10" and current_user = alice and db = example_db, OF h] h
  show ?thesis by blast
qed

text \<open>
  C9. A payload whose \<open>question_id\<close> key holds a falsy value (the empty string, 0,
  None, false, and any other value Python counts as false) is answered with Bad-Request
  exactly as the payload without the key is, and the value is not passed to the service.
\<close>

theorem update_responses_falsy_question_id:
  "\<not> truthy v \<Longrightarrow>
     update_responses svc session_id (response_data(''question_id'' \<mapsto> v)) current_user db =
       (Inl (HTTPException HTTP_400_BAD_REQUEST ''question_id is required''), db) \<and>
     update_responses svc session_id (response_data(''question_id'' \<mapsto> v)) current_user db =
       update_responses svc session_id (response_data(''question_id'' := None)) current_user db"
  by (simp add: update_responses_def dict_get_def)

theorem update_responses_falsy_question_id_witness:
  "list_all (\<lambda>v. \<not> truthy v \<and>
      update_responses AssessmentService (UUID 10)
        [''response'' \<mapsto> JStr ''yes'', ''question_id'' \<mapsto> v] alice example_db =
      (Inl (HTTPException HTTP_400_BAD_REQUEST ''question_id is required''), example_db))
     [JStr '''', JInt 0, JNull, JBool False]"
  using update_responses_falsy_question_id
          [of "JStr ''''" AssessmentService "UUID 10" "[''response'' \<mapsto> JStr ''yes'']" alice example_db]
        update_responses_falsy_question_id
          [of "JInt 0" AssessmentService "UUID 10" "[''response'' \<mapsto> JStr ''yes'']" alice example_db]
        update_responses_falsy_question_id
          [of JNull AssessmentService "UUID 10" "[''response'' \<mapsto> JStr ''yes'']" alice example_db]
        update_responses_falsy_question_id
          [of "JBool False" AssessmentService "UUID 10" "[''response'' \<mapsto> JStr ''yes'']" alice example_db]
  by simp

text \<open>
  C5. As stated, for every payload in which \<open>question_id\<close> is present: the payload
  \<open>{"question_id": "", "response": "yes"}\<close> has the key, the loosely typed route
  raises Bad-Request for it, and the typed route given the same question id and response
  updates the session.
\<close>

theorem update_responses_present_counterexample:
  "[''question_id'' \<mapsto> JStr '''', ''response'' \<mapsto> JStr ''yes''] ''question_id'' = Some (JStr '''') \<and>
   update_responses AssessmentService (UUID 10)
     [''question_id'' \<mapsto> JStr '''', ''response'' \<mapsto> JStr ''yes''] alice example_db \<noteq>
   update_response AssessmentService (UUID 10)
     \<lparr>question_id = JStr '''', response = JStr ''yes''\<rparr> alice example_db"
  by (simp add: update_responses_def update_response_def dict_get_def service_simps
        example_simps Let_def)

text \<open>
  C5, amended. For every payload whose \<open>question_id\<close> value is truthy, POST
  /{session_id}/responses behaves as PUT /{session_id}/response does given the same
  session id, question id and response value (None when the payload has no
  \<open>response\<close> key): the same call of the service's update operation, and its result
  returned.
\<close>

theorem update_responses_delegates:
  "truthy (dict_get response_data ''question_id'') \<Longrightarrow>
     update_responses svc session_id response_data current_user db =
       update_response svc session_id
         \<lparr>question_id = dict_get response_data ''question_id'',
          response = dict_get response_data ''response''\<rparr> current_user db \<and>
     update_responses svc session_id response_data current_user db =
       update_assessment_response svc db current_user session_id
         (dict_get response_data ''question_id'') (dict_get response_data ''response'')"
  by (simp add: update_responses_def update_response_def)

theorem update_responses_delegates_witness:
  "truthy (dict_get [''question_id'' \<mapsto> JStr ''q1'', ''response'' \<mapsto> JStr ''yes''] ''question_id'') \<and>
   update_responses AssessmentService (UUID 10)
     [''question_id'' \<mapsto> JStr ''q1'', ''response'' \<mapsto> JStr ''yes''] alice example_db =
   update_response AssessmentService (UUID 10)
     \<lparr>question_id = JStr ''q1'', response = JStr ''yes''\<rparr> alice example_db \<and>
   fst (update_responses AssessmentService (UUID 10)
     [''question_id'' \<mapsto> JStr ''q1'', ''response'' \<mapsto> JStr ''yes''] alice example_db) =
   Inr (session_plain\<lparr>responses := [(JStr ''q1'', JStr ''yes'')]\<rparr>)"
proof -
  have h: "truthy (dict_get [''question_id'' \<mapsto> JStr ''q1'', ''response'' \<mapsto> JStr ''yes''] ''question_id'')"
    by (simp add: dict_get_def)
  from update_responses_delegates [OF h, of AssessmentService "UUID 10" alice example_db]
  have e1: "update_responses AssessmentService (UUID 10)
       [''question_id'' \<mapsto> JStr ''q1'', ''response'' \<mapsto> JStr ''yes''] alice example_db =
     update_response AssessmentService (UUID 10)
       \<lparr>question_id = JStr ''q1'', response = JStr ''yes''\<rparr> alice example_db"
    by (simp add: dict_get_def)
  have e2: "fst (update_response AssessmentService (UUID 10)
       \<lparr>question_id = JStr ''q1'', response = JStr ''yes''\<rparr> alice example_db) =
     Inr (session_plain\<lparr>responses := [(JStr ''q1'', JStr ''yes'')]\<rparr>)"
    by (simp add: update_response_def service_simps example_simps Let_def)
  from e1 e2 h show ?thesis by simp
qed

subsection \<open>Recommendations of a session\<close>

text \<open>
  C2. As stated, a session that carries a persisted recommendations list gets that list
  back verbatim: the caller's session with the persisted list \<open>[]\<close> does not; with the
  active frameworks "GDPR Foo" and "ISO 9000" in the table the answer is the synthesized
  list.
\<close>

theorem recommendations_verbatim_counterexample:
  "service_get_assessment_session AssessmentService example_db alice (UUID 12) =
     (Inr (Some session_empty), example_db) \<and>
   AssessmentSession.recommendations session_empty = JList [] \<and>
   get_assessment_recommendations AssessmentService (UUID 12) alice example_db \<noteq>
     (Inr (JDict [(''recommendations'', AssessmentSession.recommendations session_empty)]),
      example_db)"
  by (simp add: get_assessment_recommendations_def service_simps example_simps Let_def
        str_in_def sublist_Cons_right)

text \<open>
  C2, amended. For every GET /{session_id}/recommendations on a session the service
  yields for the caller: if the session's recommendations value is truthy (a non-empty
  list), it is returned verbatim; otherwise (absent or empty) the answer holds, in table
  order, one entry for each active framework whose name contains "GDPR" or "ISO", with
  priority "High" when the name contains "GDPR" and "Medium" otherwise, and with the
  description "Recommended based on your business profile"; an active framework whose
  name contains neither is left out.
\<close>

theorem get_assessment_recommendations_result:
  assumes "service_get_assessment_session svc db current_user session_id =
             (Inr (Some session), db')"
  shows "(truthy (AssessmentSession.recommendations session) \<longrightarrow>
            get_assessment_recommendations svc session_id current_user db =
              (Inr (JDict [(''recommendations'', AssessmentSession.recommendations session)]),
               db')) \<and>
         (\<not> truthy (AssessmentSession.recommendations session) \<longrightarrow>
            get_assessment_recommendations svc session_id current_user db =
              (Inr (JDict [(''recommendations'',
                 JList (map (\<lambda>fw. JDict
                    [(''framework'',
                        JDict
                          [(''id'', JStr (str_uuid (ComplianceFramework.ident fw))),
                           (''name'', JStr (name fw)),
                           (''description'', JStr (description fw))]),
                     (''priority'',
                        JStr (if str_in ''GDPR'' (name fw) then ''High'' else ''Medium'')),
                     (''description'', JStr ''Recommended based on your business profile'')])
                   (filter (\<lambda>fw. str_in ''GDPR'' (name fw) \<or> str_in ''ISO'' (name fw))
                      (filter is_active (compliance_frameworks db')))))]),
               db'))"
  using assms
  by (simp add: get_assessment_recommendations_def Let_def recommendations_loop_append)

theorem get_assessment_recommendations_result_witness:
  "get_assessment_recommendations AssessmentService (UUID 11) alice example_db =
     (Inr (JDict [(''recommendations'', JList [JDict [(''framework'', JStr ''SOC 2'')]])]),
      example_db) \<and>
   get_assessment_recommendations AssessmentService (UUID 10) alice example_db =
     (Inr (JDict [(''recommendations'',
        JList
          [JDict
             [(''framework'',
                 JDict
                   [(''id'', JStr ''00000000-0000-0000-0000-000000000001''),
                    (''name'', JStr ''GDPR Foo''),
                    (''description'', JStr ''a'')]),
              (''priority'', JStr ''High''),
              (''description'', JStr ''Recommended based on your business profile'')],
           JDict
             [(''framework'',
                 JDict
                   [(''id'', JStr ''00000000-0000-0000-0000-000000000003''),
                    (''name'', JStr ''ISO 9000''),
                    (''description'', JStr ''c'')]),
              (''priority'', JStr ''Medium''),
              (''description'', JStr ''Recommended based on your business profile'')]])]),
      example_db)"
proof -
  have a: "service_get_assessment_session AssessmentService example_db alice (UUID 11) =
             (Inr (Some session_persisted), example_db)"
    by (simp add: service_simps example_simps)
  have b: "service_get_assessment_session AssessmentService example_db alice (UUID 10) =
             (Inr (Some session_plain), example_db)"
    by (simp add: service_simps example_simps)
  have ta: "truthy (AssessmentSession.recommendations session_persisted)"
    by (simp add: session_persisted_def)
  have tb: "\<not> truthy (AssessmentSession.recommendations session_plain)"
    by (simp add: session_plain_def)
  from get_assessment_recommendations_result [OF a] ta
  have ra: "get_assessment_recommendations AssessmentService (UUID 11) alice example_db =
      (Inr (JDict [(''recommendations'', AssessmentSession.recommendations session_persisted)]),
       example_db)"
    by blast
  from get_assessment_recommendations_result [OF b] tb
  have rb: "get_assessment_recommendations AssessmentService (UUID 10) alice example_db =
      (Inr (JDict [(''recommendations'',
                 JList (map (\<lambda>fw. JDict
                    [(''framework'',
                        JDict
                          [(''id'', JStr (str_uuid (ComplianceFramework.ident fw))),
                           (''name'', JStr (name fw)),
                           (''description'', JStr (description fw))]),
                     (''priority'',
                        JStr (if str_in ''GDPR'' (name fw) then ''High'' else ''Medium'')),
                     (''description'', JStr ''Recommended based on your business profile'')])
                   (filter (\<lambda>fw. str_in ''GDPR'' (name fw) \<or> str_in ''ISO'' (name fw))
                      (filter is_active (compliance_frameworks example_db)))))]),
               example_db)"
    by blast
  show ?thesis
    unfolding ra rb
    by (simp add: session_persisted_def)
       (simp add: example_db_def str_in_def sublist_Cons_right str_uuid_1 str_uuid_3
          del: str_uuid.simps One_nat_def)
qed

text \<open>
  C10. As stated, a session whose persisted recommendations list is present but empty
  never gets that empty list back: with no active framework whose name contains "GDPR" or
  "ISO" in the table, the synthesis is empty too and the answer is the persisted empty
  list.
\<close>

theorem empty_recommendations_verbatim_counterexample:
  "service_get_assessment_session AssessmentService example_db_unmatched alice (UUID 12) =
     (Inr (Some session_empty), example_db_unmatched) \<and>
   AssessmentSession.recommendations session_empty = JList [] \<and>
   get_assessment_recommendations AssessmentService (UUID 12) alice example_db_unmatched =
     (Inr (JDict [(''recommendations'', AssessmentSession.recommendations session_empty)]),
      example_db_unmatched)"
  by (simp add: get_assessment_recommendations_def service_simps alice_def session_plain_def
        session_persisted_def session_empty_def example_db_unmatched_def Let_def
        str_in_def sublist_Cons_right)

text \<open>
  C10, amended. For a session of the caller whose persisted recommendations list is
  present but empty, the answer is the fallback synthesis over the active frameworks: in
  table order, one entry for each active framework whose name has "GDPR" or "ISO" as a
  substring, with priority "High" for "GDPR" and "Medium" otherwise. The answer is the
  persisted empty list exactly when no active framework's name has either substring.
\<close>

theorem empty_recommendations_synthesized:
  assumes "service_get_assessment_session svc db current_user session_id =
             (Inr (Some session), db')"
    and "AssessmentSession.recommendations session = JList []"
  shows "get_assessment_recommendations svc session_id current_user db =
           (Inr (JDict [(''recommendations'',
              JList (map (\<lambda>fw. JDict
                 [(''framework'',
                     JDict
                       [(''id'', JStr (str_uuid (ComplianceFramework.ident fw))),
                        (''name'', JStr (name fw)),
                        (''description'', JStr (description fw))]),
                  (''priority'',
                     JStr (if \<exists>pre post. name fw = pre @ ''GDPR'' @ post
                           then ''High'' else ''Medium'')),
                  (''description'', JStr ''Recommended based on your business profile'')])
                (filter (\<lambda>fw. (\<exists>pre post. name fw = pre @ ''GDPR'' @ post) \<or>
                              (\<exists>pre post. name fw = pre @ ''ISO'' @ post))
                   (filter is_active (compliance_frameworks db')))))]),
            db') \<and>
         ((get_assessment_recommendations svc session_id current_user db =
             (Inr (JDict [(''recommendations'', AssessmentSession.recommendations session)]),
              db')) =
          (\<forall>fw \<in> set (compliance_frameworks db').
              is_active fw \<longrightarrow>
                \<not> (\<exists>pre post. name fw = pre @ ''GDPR'' @ post) \<and>
                \<not> (\<exists>pre post. name fw = pre @ ''ISO'' @ post)))"
  using assms
  by (auto simp add: get_assessment_recommendations_def Let_def recommendations_loop_append
        filter_empty_conv str_in_iff)

theorem empty_recommendations_synthesized_witness:
  "get_assessment_recommendations AssessmentService (UUID 12) alice example_db =
     (Inr (JDict [(''recommendations'',
        JList
          [JDict
             [(''framework'',
                 JDict
                   [(''id'', JStr ''00000000-0000-0000-0000-000000000001''),
                    (''name'', JStr ''GDPR Foo''),
                    (''description'', JStr ''a'')]),
              (''priority'', JStr ''High''),
              (''description'', JStr ''Recommended based on your business profile'')],
           JDict
             [(''framework'',
                 JDict
                   [(''id'', JStr ''00000000-0000-0000-0000-000000000003''),
                    (''name'', JStr ''ISO 9000''),
                    (''description'', JStr ''c'')]),
              (''priority'', JStr ''Medium''),
              (''description'', JStr ''Recommended based on your business profile'')]])]),
      example_db) \<and>
   get_assessment_recommendations AssessmentService (UUID 12) alice example_db \<noteq>
     (Inr (JDict [(''recommendations'', JList [])]), example_db) \<and>
   get_assessment_recommendations AssessmentService (UUID 12) alice example_db_unmatched =
     (Inr (JDict [(''recommendations'', JList [])]), example_db_unmatched)"
proof -
  have a: "service_get_assessment_session AssessmentService example_db alice (UUID 12) =
             (Inr (Some session_empty), example_db)"
    by (simp add: service_simps example_simps)
  have a': "service_get_assessment_session AssessmentService example_db_unmatched alice (UUID 12) =
             (Inr (Some session_empty), example_db_unmatched)"
    by (simp add: service_simps alice_def session_plain_def session_persisted_def
          session_empty_def example_db_unmatched_def)
  have b: "AssessmentSession.recommendations session_empty = JList []"
    by (simp add: session_empty_def)
  note r = empty_recommendations_synthesized [OF a b, folded str_in_iff]
  note r' = empty_recommendations_synthesized [OF a' b, folded str_in_iff]
  have r1: "get_assessment_recommendations AssessmentService (UUID 12) alice example_db =
     (Inr (JDict [(''recommendations'',
        JList
          [JDict
             [(''framework'',
                 JDict
                   [(''id'', JStr ''00000000-0000-0000-0000-000000000001''),
                    (''name'', JStr ''GDPR Foo''),
                    (''description'', JStr ''a'')]),
              (''priority'', JStr ''High''),
              (''description'', JStr ''Recommended based on your business profile'')],
           JDict
             [(''framework'',
                 JDict
                   [(''id'', JStr ''00000000-0000-0000-0000-000000000003''),
                    (''name'', JStr ''ISO 9000''),
                    (''description'', JStr ''c'')]),
              (''priority'', JStr ''Medium''),
              (''description'', JStr ''Recommended based on your business profile'')]])]),
      example_db)"
    unfolding r [THEN conjunct1]
    by (simp add: example_db_def str_in_def sublist_Cons_right str_uuid_1 str_uuid_3
          del: str_uuid.simps One_nat_def)
  have r2: "get_assessment_recommendations AssessmentService (UUID 12) alice example_db_unmatched =
     (Inr (JDict [(''recommendations'', JList [])]), example_db_unmatched)"
    unfolding r' [THEN conjunct1]
    by (simp add: example_db_unmatched_def str_in_def sublist_Cons_right)
  from r1 r2 show ?thesis by simp
qed

text \<open>
  C3. For every session id that does not exist or is not owned by the caller, GET
  /{session_id}, GET /{session_id}/recommendations and POST /{session_id}/complete each
  raise Not-Found (404), so no session's data is returned, and the database is left as it
  was. The first two handlers raise it themselves on the service's empty answer; complete
  has no check of its own and passes on what the service raises.
\<close>

theorem foreign_session_not_found:
  assumes "\<forall>s \<in> set (assessment_sessions db).
             \<not> (AssessmentSession.ident s = session_id \<and>
                user_id s = UserWithRoles.ident current_user)"
  shows "get_assessment_session AssessmentService session_id current_user db =
           (Inl (HTTPException HTTP_404_NOT_FOUND ''Assessment session not found''), db) \<and>
         get_assessment_recommendations AssessmentService session_id current_user db =
           (Inl (HTTPException HTTP_404_NOT_FOUND ''Assessment session not found''), db) \<and>
         (\<exists>detail. complete_assessment AssessmentService session_id current_user db =
           (Inl (HTTPException HTTP_404_NOT_FOUND detail), db))"
proof -
  from assms have none: "owned_session db current_user session_id = None"
    by (rule owned_session_None)
  have g: "service_get_assessment_session AssessmentService db current_user session_id =
             (Inr None, db)"
    by (simp add: AssessmentService_def AssessmentService_get_assessment_session_def none)
  have c: "complete_assessment_session AssessmentService db current_user session_id =
             (Inl (HTTPException HTTP_404_NOT_FOUND ''Assessment session not found''), db)"
    by (simp add: AssessmentService_def AssessmentService_complete_assessment_session_def none)
  show ?thesis
    by (simp add: get_assessment_session_def get_assessment_recommendations_def
          complete_assessment_def g c)
qed

theorem foreign_session_not_found_witness:
  "get_assessment_session AssessmentService (UUID 10) bob example_db =
     (Inl (HTTPException HTTP_404_NOT_FOUND ''Assessment session not found''), example_db) \<and>
   get_assessment_recommendations AssessmentService (UUID 10) bob example_db =
     (Inl (HTTPException HTTP_404_NOT_FOUND ''Assessment session not found''), example_db) \<and>
   (\<exists>detail. complete_assessment AssessmentService (UUID 10) bob example_db =
     (Inl (HTTPException HTTP_404_NOT_FOUND detail), example_db)) \<and>
   get_assessment_session AssessmentService (UUID 99) alice example_db =
     (Inl (HTTPException HTTP_404_NOT_FOUND ''Assessment session not found''), example_db) \<and>
   get_assessment_recommendations AssessmentService (UUID 99) alice example_db =
     (Inl (HTTPException HTTP_404_NOT_FOUND ''Assessment session not found''), example_db) \<and>
   (\<exists>detail. complete_assessment AssessmentService (UUID 99) alice example_db =
     (Inl (HTTPException HTTP_404_NOT_FOUND detail), example_db)) \<and>
   get_assessment_session AssessmentService (UUID 10) alice example_db =
     (Inr session_plain, example_db)"
proof -
  have foreign: "\<forall>s \<in> set (assessment_sessions example_db).
      \<not> (AssessmentSession.ident s = UUID 10 \<and> user_id s = UserWithRoles.ident bob)"
    by (simp add: example_simps)
  have missing: "\<forall>s \<in> set (assessment_sessions example_db).
      \<not> (AssessmentSession.ident s = UUID 99 \<and> user_id s = UserWithRoles.ident alice)"
    by (simp add: example_simps)
  have own: "get_assessment_session AssessmentService (UUID 10) alice example_db =
     (Inr session_plain, example_db)"
    by (simp add: get_assessment_session_def service_simps example_simps)
  from foreign_session_not_found [OF foreign] foreign_session_not_found [OF missing] own
  show ?thesis by simp
qed

end
